theory Spec2Isabelle
  imports Main
begin

section \<open>The prompt gateway of backend/cmd/slots-gpt/main.go\<close>

text \<open>
  The program is one Go file: \<^verbatim>\<open>main\<close> reads four environment variables, builds an
  AWS session and a Bedrock client, registers one handler for \<^verbatim>\<open>/api/send-prompt\<close>
  and serves. The embedding follows the file top to bottom. What the file calls but does
  not contain is handled in two ways:
  \<^item> the JSON decoder (\<^verbatim>\<open>json.NewDecoder(r.Body).Decode\<close>), the inference client
    (\<^verbatim>\<open>svc.InvokeModel\<close>), the JSON string quoting inside \<^verbatim>\<open>Encode\<close>,
    \<^verbatim>\<open>session.NewSession\<close> and \<^verbatim>\<open>http.ListenAndServe\<close> are parameters of the
    model: every theorem holds for whatever they return;
  \<^item> the few library calls with a fixed, documented effect
    (\<^verbatim>\<open>http.Error\<close>, \<^verbatim>\<open>Header().Set\<close>, \<^verbatim>\<open>WriteHeader\<close>, \<^verbatim>\<open>Write\<close>,
    \<^verbatim>\<open>aws.String\<close>, \<^verbatim>\<open>aws.StringValue\<close>, \<^verbatim>\<open>os.Getenv\<close>) are small definitions.
  One claim is about the decoder itself; a model of the library's decoder, used for
  that claim only, has a subsection of its own.
  A Go \<^verbatim>\<open>error\<close> is modelled by its text, a \<^verbatim>\<open>*string\<close> by \<open>string option\<close>
  (\<open>None\<close> is \<^verbatim>\<open>nil\<close>).
\<close>

subsection \<open>Message shapes (lines 17 to 24) and the client's input and output\<close>

type_synonym go_error = string

record PromptRequest =
  Prompt :: string
  Model :: string

record PromptResponse =
  Response :: string

record InvokeModelInput =
  InputText :: "string option"
  ModelId :: "string option"

record InvokeModelOutput =
  OutputText :: "string option"

definition aws_String :: "string \<Rightarrow> string option" where
  "aws_String v = Some v"

definition aws_StringValue :: "string option \<Rightarrow> string" where
  "aws_StringValue v = (case v of None \<Rightarrow> [] | Some s \<Rightarrow> s)"

subsection \<open>The request and the response writer\<close>

record Request =
  Method :: string
  Body :: string

text \<open>
  A response writer holds the header map, the status line once it is written (\<open>None\<close>
  before) and the bytes of the body written so far.
\<close>

record ResponseWriter =
  Header :: "string \<rightharpoonup> string"
  status :: "nat option"
  written :: string

definition fresh_writer :: ResponseWriter where
  "fresh_writer = \<lparr>Header = Map.empty, status = None, written = []\<rparr>"

definition Header_Set :: "ResponseWriter \<Rightarrow> string \<Rightarrow> string \<Rightarrow> ResponseWriter" where
  "Header_Set rw k v = rw\<lparr>Header := (Header rw)(k \<mapsto> v)\<rparr>"

text \<open>\<^verbatim>\<open>WriteHeader\<close> fixes the status once; a second call changes nothing.\<close>

definition WriteHeader :: "ResponseWriter \<Rightarrow> nat \<Rightarrow> ResponseWriter" where
  "WriteHeader rw code = (case status rw of None \<Rightarrow> rw\<lparr>status := Some code\<rparr> | Some _ \<Rightarrow> rw)"

text \<open>\<^verbatim>\<open>Write\<close> sends status 200 first when no status was written, then appends.\<close>

definition Write :: "ResponseWriter \<Rightarrow> string \<Rightarrow> ResponseWriter" where
  "Write rw bs = (let rw1 = WriteHeader rw 200 in rw1\<lparr>written := written rw1 @ bs\<rparr>)"

text \<open>
  \<^verbatim>\<open>http.Error(w, error, code)\<close>: plain-text content type, the no-sniff header, the
  status, then \<^verbatim>\<open>fmt.Fprintln(w, error)\<close>, which ends the message with a newline.
\<close>

definition http_Error :: "ResponseWriter \<Rightarrow> string \<Rightarrow> nat \<Rightarrow> ResponseWriter" where
  "http_Error rw error code =
     (let rw1 = Header_Set rw ''Content-Type'' ''text/plain; charset=utf-8'';
          rw2 = Header_Set rw1 ''X-Content-Type-Options'' ''nosniff'';
          rw3 = WriteHeader rw2 code
      in Write rw3 (error @ ''\<newline>''))"

text \<open>
  \<^verbatim>\<open>json.NewEncoder(w).Encode(response)\<close> for the one-field struct of line 22, whose
  tag names the key \<^verbatim>\<open>response\<close>: the object, then the newline \<^verbatim>\<open>Encode\<close> appends.
  \<open>quote\<close> is the library's rendering of a Go string as a JSON string literal.
\<close>

definition Marshal :: "(string \<Rightarrow> string) \<Rightarrow> PromptResponse \<Rightarrow> string" where
  \<open>Marshal quote v = ''{"response":'' @ quote (Response v) @ ''}''\<close>

definition Encode :: "(string \<Rightarrow> string) \<Rightarrow> ResponseWriter \<Rightarrow> PromptResponse \<Rightarrow> ResponseWriter" where
  "Encode quote rw v = Write rw (Marshal quote v @ ''\<newline>'')"

subsection \<open>The handler (lines 50 to 84)\<close>

text \<open>
  What one run of the handler can change: the response writer, the server's log, and
  the calls made to the inference client, in order.
\<close>

record effects =
  writer :: ResponseWriter
  logged :: "string list"
  invoked :: "InvokeModelInput list"

definition fresh :: effects where
  "fresh = \<lparr>writer = fresh_writer, logged = [], invoked = []\<rparr>"

definition handler ::
  "(string \<Rightarrow> 'e + PromptRequest) \<Rightarrow> (InvokeModelInput \<Rightarrow> go_error + InvokeModelOutput) \<Rightarrow>
   (string \<Rightarrow> string) \<Rightarrow> Request \<Rightarrow> effects \<Rightarrow> effects" where
  "handler Decode InvokeModel quote r st =
     (if Method r \<noteq> ''POST'' then
        st\<lparr>writer := http_Error (writer st) ''Invalid request method'' 405\<rparr>
      else
        (case Decode (Body r) of
          Inl err \<Rightarrow> st\<lparr>writer := http_Error (writer st) ''Invalid request payload'' 400\<rparr>
        | Inr req \<Rightarrow>
            (if Prompt req = [] \<or> Model req = [] then
               st\<lparr>writer := http_Error (writer st) ''Prompt and model are required'' 400\<rparr>
             else
               (let params = \<lparr>InputText = aws_String (Prompt req), ModelId = aws_String (Model req)\<rparr>;
                    st1 = st\<lparr>invoked := invoked st @ [params]\<rparr>
                in (case InvokeModel params of
                      Inl err \<Rightarrow>
                        (let st2 = st1\<lparr>logged := logged st1 @ [''Error invoking Bedrock model: '' @ err]\<rparr>
                         in st2\<lparr>writer := http_Error (writer st2) ''Failed to invoke Bedrock model'' 500\<rparr>)
                    | Inr resp \<Rightarrow>
                        (let response = \<lparr>Response = aws_StringValue (OutputText resp)\<rparr>;
                             rw1 = Header_Set (writer st1) ''Content-Type'' ''application/json''
                         in st1\<lparr>writer := Encode quote rw1 response\<rparr>))))))"

text \<open>The server hands every request a writer of its own.\<close>

definition serve ::
  "(string \<Rightarrow> 'e + PromptRequest) \<Rightarrow> (InvokeModelInput \<Rightarrow> go_error + InvokeModelOutput) \<Rightarrow>
   (string \<Rightarrow> string) \<Rightarrow> Request \<Rightarrow> effects" where
  "serve Decode InvokeModel quote r = handler Decode InvokeModel quote r fresh"

text \<open>The response \<^verbatim>\<open>http.Error\<close> leaves on a fresh writer.\<close>

definition error_response :: "string \<Rightarrow> nat \<Rightarrow> ResponseWriter" where
  "error_response msg code =
     \<lparr>Header = [''Content-Type'' \<mapsto> ''text/plain; charset=utf-8'',
                 ''X-Content-Type-Options'' \<mapsto> ''nosniff''],
      status = Some code, written = msg @ ''\<newline>''\<rparr>"

subsection \<open>Start-up: \<^verbatim>\<open>main\<close> (lines 26 to 88)\<close>

text \<open>
  The process environment is a map from names to values, as \<^verbatim>\<open>os.Getenv\<close> sees it
  once \<^verbatim>\<open>godotenv.Load\<close> has run; \<^verbatim>\<open>os.Getenv\<close> gives the empty string for a
  name that is not set.
\<close>

definition Getenv :: "(string \<rightharpoonup> string) \<Rightarrow> string \<Rightarrow> string" where
  "Getenv env key = (case env key of None \<Rightarrow> [] | Some v \<Rightarrow> v)"

text \<open>Lines 32 to 38: the four values read, under the names of the local variables.\<close>

record env_values =
  awsRegion :: string
  awsAccessKey :: string
  awsSecretKey :: string
  port :: string

definition load_env :: "(string \<rightharpoonup> string) \<Rightarrow> env_values" where
  "load_env env =
     (let awsRegion = Getenv env ''AWS_REGION'';
          awsAccessKey = Getenv env ''AWS_ACCESS_KEY_ID'';
          awsSecretKey = Getenv env ''AWS_SECRET_ACCESS_KEY'';
          port = Getenv env ''PORT'';
          port = (if port = [] then ''3000'' else port)
      in \<lparr>awsRegion = awsRegion, awsAccessKey = awsAccessKey, awsSecretKey = awsSecretKey,
          port = port\<rparr>)"

text \<open>
  Lines 40 to 43: the configuration handed to \<^verbatim>\<open>session.NewSession\<close>; the static
  credentials are the triple of key id, secret and (empty) token.
\<close>

record aws_Config =
  Region :: "string option"
  Credentials :: "string \<times> string \<times> string"

definition NewStaticCredentials :: "string \<Rightarrow> string \<Rightarrow> string \<Rightarrow> string \<times> string \<times> string" where
  "NewStaticCredentials ident secret token = (ident, secret, token)"

definition session_config :: "env_values \<Rightarrow> aws_Config" where
  "session_config v =
     \<lparr>Region = aws_String (awsRegion v),
      Credentials = NewStaticCredentials (awsAccessKey v) (awsSecretKey v) []\<rparr>"

text \<open>
  What a run of \<^verbatim>\<open>main\<close> leaves behind: the lines logged, the exit status once the
  process has exited (\<open>None\<close> while it serves), and the address handed to
  \<^verbatim>\<open>http.ListenAndServe\<close> (\<open>None\<close> when that call was not reached).
  \<^verbatim>\<open>log.Fatalf\<close> and \<^verbatim>\<open>log.Fatal\<close> log and exit with status 1.
  \<open>dotenv_failed\<close> says whether \<^verbatim>\<open>godotenv.Load\<close> returned an error;
  \<open>ListenAndServe\<close> gives \<open>None\<close> when the server never returns and the error it
  returned otherwise (it has no other way to return).
\<close>

record process =
  log_lines :: "string list"
  exit_status :: "nat option"
  listen_addr :: "string option"

definition main ::
  "bool \<Rightarrow> (string \<rightharpoonup> string) \<Rightarrow> (aws_Config \<Rightarrow> go_error + 'sess) \<Rightarrow>
   (string \<Rightarrow> go_error option) \<Rightarrow> process" where
  "main dotenv_failed env NewSession ListenAndServe =
     (let out0 = (if dotenv_failed then [''No .env file found''] else []);
          v = load_env env
      in (case NewSession (session_config v) of
            Inl err \<Rightarrow>
              \<lparr>log_lines = out0 @ [''Failed to create AWS session: '' @ err],
               exit_status = Some 1, listen_addr = None\<rparr>
          | Inr sess \<Rightarrow>
              (let out1 = out0 @ [''Server is running on port '' @ port v];
                   addr = '':'' @ port v
               in (case ListenAndServe addr of
                     None \<Rightarrow> \<lparr>log_lines = out1, exit_status = None, listen_addr = Some addr\<rparr>
                   | Some err \<Rightarrow>
                       \<lparr>log_lines = out1 @ [err], exit_status = Some 1,
                        listen_addr = Some addr\<rparr>))))"

subsection \<open>The decoder behind \<^verbatim>\<open>json.NewDecoder(r.Body).Decode(&req)\<close>\<close>

text \<open>
  Modelled from the spec: the decoder is Go's \<^verbatim>\<open>encoding/json\<close>, which is not among
  the sources; only the call on line 57 is. The handler above takes any decoder as a
  parameter. For the one claim that is about the decoder itself, this subsection models
  the library the call reaches, with the default options the call leaves in place
  (the handler never asks for unknown fields to be refused):
  \<^item> \<^verbatim>\<open>Decoder.readValue\<close>, which runs the library's scanner, a state machine fed one
    byte at a time, over the body until the first JSON value ends;
  \<^item> the storing of that value into the two string fields of \<^verbatim>\<open>PromptRequest\<close>,
    on the value read as a tree. The reading of the value's bytes as a tree (\<open>parse\<close>)
    is a parameter.
  The body is the whole stream: the chunks in which it arrives do not change the scan.
  Byte offsets in error values are left out.
\<close>

datatype decode_error =
    SyntaxError char string
  | EOF
  | ErrUnexpectedEOF
  | UnmarshalTypeError string
  | RuntimePanic

text \<open>
  The scanner: its \<^verbatim>\<open>step\<close> function (one constructor per state function), the
  \<^verbatim>\<open>endTop\<close> flag, the stack of open objects and arrays (top first), and the error.
\<close>

datatype step_state =
    stateBeginValue | stateBeginValueOrEmpty | stateBeginStringOrEmpty | stateBeginString
  | stateEndValue | stateEndTop
  | stateInString | stateInStringEsc | stateInStringEscU | stateInStringEscU1
  | stateInStringEscU12 | stateInStringEscU123
  | stateNeg | state1 | state0 | stateDot | stateDot0 | stateE | stateESign | stateE0
  | stateT | stateTr | stateTru | stateF | stateFa | stateFal | stateFals
  | stateN | stateNu | stateNul | stateError

datatype opcode =
    scanContinue | scanBeginLiteral | scanBeginObject | scanObjectKey | scanObjectValue
  | scanEndObject | scanBeginArray | scanArrayValue | scanEndArray | scanSkipSpace
  | scanEnd | scanError

datatype parse_state = parseObjectKey | parseObjectValue | parseArrayValue

record scanner =
  step :: step_state
  endTop :: bool
  parseState :: "parse_state list"
  scan_err :: "decode_error option"

definition maxNestingDepth :: nat where
  "maxNestingDepth = 10000"

definition reset :: scanner where
  "reset = \<lparr>step = stateBeginValue, endTop = False, parseState = [], scan_err = None\<rparr>"

definition isSpace :: "char \<Rightarrow> bool" where
  "isSpace c = (c = CHR '' '' \<or> c = CHR 0x09 \<or> c = CHR 0x0D \<or> c = CHR 0x0A)"

definition isDigit :: "char \<Rightarrow> bool" where
  "isDigit c = (c \<in> set ''0123456789'')"

definition isDigit19 :: "char \<Rightarrow> bool" where
  "isDigit19 c = (c \<in> set ''123456789'')"

definition isHex :: "char \<Rightarrow> bool" where
  "isHex c = (c \<in> set ''0123456789abcdefABCDEF'')"

text \<open>
  \<^verbatim>\<open>scanner.error\<close> records a syntax error and moves to the error state.
  \<open>scan_panic\<close> stands where the library would index an empty stack; the states that
  do so are entered only after a push.
\<close>

definition scan_error :: "scanner \<Rightarrow> char \<Rightarrow> string \<Rightarrow> scanner \<times> opcode" where
  "scan_error s c context = (s\<lparr>step := stateError, scan_err := Some (SyntaxError c context)\<rparr>, scanError)"

definition scan_panic :: "scanner \<Rightarrow> scanner \<times> opcode" where
  "scan_panic s = (s\<lparr>step := stateError, scan_err := Some RuntimePanic\<rparr>, scanError)"

definition pushParseState :: "scanner \<Rightarrow> char \<Rightarrow> parse_state \<Rightarrow> opcode \<Rightarrow> scanner \<times> opcode" where
  "pushParseState s c newParseState successState =
     (let s1 = s\<lparr>parseState := newParseState # parseState s\<rparr>
      in if length (parseState s1) \<le> maxNestingDepth then (s1, successState)
         else scan_error s1 c ''exceeded max depth'')"

definition popParseState :: "scanner \<Rightarrow> scanner" where
  "popParseState s =
     (let rest = tl (parseState s)
      in if rest = [] then s\<lparr>parseState := rest, step := stateEndTop, endTop := True\<rparr>
         else s\<lparr>parseState := rest, step := stateEndValue\<rparr>)"

text \<open>
  After a value. At top level the value is complete \<^emph>\<open>before\<close> the byte looked at:
  \<^verbatim>\<open>stateEndTop\<close> notes an error for a later call when that byte is not a space, and
  answers \<^verbatim>\<open>scanEnd\<close> either way.
\<close>

definition stateEndTop_fn :: "scanner \<Rightarrow> char \<Rightarrow> scanner \<times> opcode" where
  "stateEndTop_fn s c =
     (if \<not> isSpace c then (fst (scan_error s c ''after top-level value''), scanEnd)
      else (s, scanEnd))"

definition stateEndValue_fn :: "scanner \<Rightarrow> char \<Rightarrow> scanner \<times> opcode" where
  "stateEndValue_fn s c =
     (case parseState s of
        [] \<Rightarrow> stateEndTop_fn (s\<lparr>step := stateEndTop, endTop := True\<rparr>) c
      | ps # rest \<Rightarrow>
          if isSpace c then (s\<lparr>step := stateEndValue\<rparr>, scanSkipSpace)
          else (case ps of
                  parseObjectKey \<Rightarrow>
                    if c = CHR '':'' then
                      (s\<lparr>parseState := parseObjectValue # rest, step := stateBeginValue\<rparr>, scanObjectKey)
                    else scan_error s c ''after object key''
                | parseObjectValue \<Rightarrow>
                    if c = CHR '','' then
                      (s\<lparr>parseState := parseObjectKey # rest, step := stateBeginString\<rparr>, scanObjectValue)
                    else if c = CHR ''}'' then (popParseState s, scanEndObject)
                    else scan_error s c ''after object key:value pair''
                | parseArrayValue \<Rightarrow>
                    if c = CHR '','' then (s\<lparr>step := stateBeginValue\<rparr>, scanArrayValue)
                    else if c = CHR '']'' then (popParseState s, scanEndArray)
                    else scan_error s c ''after array element''))"

text \<open>Before a value, an array element or an object key.\<close>

definition stateBeginValue_fn :: "scanner \<Rightarrow> char \<Rightarrow> scanner \<times> opcode" where
  \<open>stateBeginValue_fn s c =
     (if isSpace c then (s, scanSkipSpace)
      else if c = CHR ''{'' then
        pushParseState (s\<lparr>step := stateBeginStringOrEmpty\<rparr>) c parseObjectKey scanBeginObject
      else if c = CHR ''['' then
        pushParseState (s\<lparr>step := stateBeginValueOrEmpty\<rparr>) c parseArrayValue scanBeginArray
      else if c = CHR 0x22 then (s\<lparr>step := stateInString\<rparr>, scanBeginLiteral)
      else if c = CHR ''-'' then (s\<lparr>step := stateNeg\<rparr>, scanBeginLiteral)
      else if c = CHR ''0'' then (s\<lparr>step := state0\<rparr>, scanBeginLiteral)
      else if c = CHR ''t'' then (s\<lparr>step := stateT\<rparr>, scanBeginLiteral)
      else if c = CHR ''f'' then (s\<lparr>step := stateF\<rparr>, scanBeginLiteral)
      else if c = CHR ''n'' then (s\<lparr>step := stateN\<rparr>, scanBeginLiteral)
      else if isDigit19 c then (s\<lparr>step := state1\<rparr>, scanBeginLiteral)
      else scan_error s c ''looking for beginning of value'')\<close>

definition stateBeginValueOrEmpty_fn :: "scanner \<Rightarrow> char \<Rightarrow> scanner \<times> opcode" where
  "stateBeginValueOrEmpty_fn s c =
     (if isSpace c then (s, scanSkipSpace)
      else if c = CHR '']'' then stateEndValue_fn s c
      else stateBeginValue_fn s c)"

definition stateBeginString_fn :: "scanner \<Rightarrow> char \<Rightarrow> scanner \<times> opcode" where
  "stateBeginString_fn s c =
     (if isSpace c then (s, scanSkipSpace)
      else if c = CHR 0x22 then (s\<lparr>step := stateInString\<rparr>, scanBeginLiteral)
      else scan_error s c ''looking for beginning of object key string'')"

definition stateBeginStringOrEmpty_fn :: "scanner \<Rightarrow> char \<Rightarrow> scanner \<times> opcode" where
  "stateBeginStringOrEmpty_fn s c =
     (if isSpace c then (s, scanSkipSpace)
      else if c = CHR ''}'' then
        (case parseState s of
           [] \<Rightarrow> scan_panic s
         | ps # rest \<Rightarrow> stateEndValue_fn (s\<lparr>parseState := parseObjectValue # rest\<rparr>) c)
      else stateBeginString_fn s c)"

text \<open>Inside a string literal.\<close>

definition stateInString_fn :: "scanner \<Rightarrow> char \<Rightarrow> scanner \<times> opcode" where
  "stateInString_fn s c =
     (if c = CHR 0x22 then (s\<lparr>step := stateEndValue\<rparr>, scanContinue)
      else if c = CHR 0x5C then (s\<lparr>step := stateInStringEsc\<rparr>, scanContinue)
      else if (of_char c :: nat) < 0x20 then scan_error s c ''in string literal''
      else (s, scanContinue))"

definition stateInStringEsc_fn :: "scanner \<Rightarrow> char \<Rightarrow> scanner \<times> opcode" where
  "stateInStringEsc_fn s c =
     (if c \<in> set [CHR ''b'', CHR ''f'', CHR ''n'', CHR ''r'', CHR ''t'', CHR 0x5C, CHR ''/'', CHR 0x22]
      then (s\<lparr>step := stateInString\<rparr>, scanContinue)
      else if c = CHR ''u'' then (s\<lparr>step := stateInStringEscU\<rparr>, scanContinue)
      else scan_error s c ''in string escape code'')"

definition hex_then :: "step_state \<Rightarrow> scanner \<Rightarrow> char \<Rightarrow> scanner \<times> opcode" where
  "hex_then next s c =
     (if isHex c then (s\<lparr>step := next\<rparr>, scanContinue)
      else scan_error s c ''in u hexadecimal character escape'')"

text \<open>Inside a number.\<close>

definition stateNeg_fn :: "scanner \<Rightarrow> char \<Rightarrow> scanner \<times> opcode" where
  "stateNeg_fn s c =
     (if c = CHR ''0'' then (s\<lparr>step := state0\<rparr>, scanContinue)
      else if isDigit19 c then (s\<lparr>step := state1\<rparr>, scanContinue)
      else scan_error s c ''in numeric literal'')"

definition state0_fn :: "scanner \<Rightarrow> char \<Rightarrow> scanner \<times> opcode" where
  "state0_fn s c =
     (if c = CHR ''.'' then (s\<lparr>step := stateDot\<rparr>, scanContinue)
      else if c = CHR ''e'' \<or> c = CHR ''E'' then (s\<lparr>step := stateE\<rparr>, scanContinue)
      else stateEndValue_fn s c)"

definition state1_fn :: "scanner \<Rightarrow> char \<Rightarrow> scanner \<times> opcode" where
  "state1_fn s c =
     (if isDigit c then (s\<lparr>step := state1\<rparr>, scanContinue)
      else state0_fn s c)"

definition stateDot_fn :: "scanner \<Rightarrow> char \<Rightarrow> scanner \<times> opcode" where
  "stateDot_fn s c =
     (if isDigit c then (s\<lparr>step := stateDot0\<rparr>, scanContinue)
      else scan_error s c ''after decimal point in numeric literal'')"

definition stateDot0_fn :: "scanner \<Rightarrow> char \<Rightarrow> scanner \<times> opcode" where
  "stateDot0_fn s c =
     (if isDigit c then (s, scanContinue)
      else if c = CHR ''e'' \<or> c = CHR ''E'' then (s\<lparr>step := stateE\<rparr>, scanContinue)
      else stateEndValue_fn s c)"

definition stateESign_fn :: "scanner \<Rightarrow> char \<Rightarrow> scanner \<times> opcode" where
  "stateESign_fn s c =
     (if isDigit c then (s\<lparr>step := stateE0\<rparr>, scanContinue)
      else scan_error s c ''in exponent of numeric literal'')"

definition stateE_fn :: "scanner \<Rightarrow> char \<Rightarrow> scanner \<times> opcode" where
  "stateE_fn s c =
     (if c = CHR ''+'' \<or> c = CHR ''-'' then (s\<lparr>step := stateESign\<rparr>, scanContinue)
      else stateESign_fn s c)"

definition stateE0_fn :: "scanner \<Rightarrow> char \<Rightarrow> scanner \<times> opcode" where
  "stateE0_fn s c =
     (if isDigit c then (s, scanContinue)
      else stateEndValue_fn s c)"

text \<open>The literals \<^verbatim>\<open>true\<close>, \<^verbatim>\<open>false\<close>, \<^verbatim>\<open>null\<close>, and the dispatch on the state.\<close>

definition letter_then :: "char \<Rightarrow> step_state \<Rightarrow> string \<Rightarrow> scanner \<Rightarrow> char \<Rightarrow> scanner \<times> opcode" where
  "letter_then want next context s c =
     (if c = want then (s\<lparr>step := next\<rparr>, scanContinue)
      else scan_error s c context)"

definition step_fn :: "scanner \<Rightarrow> char \<Rightarrow> scanner \<times> opcode" where
  "step_fn s c =
     (case step s of
        stateBeginValue \<Rightarrow> stateBeginValue_fn s c
      | stateBeginValueOrEmpty \<Rightarrow> stateBeginValueOrEmpty_fn s c
      | stateBeginStringOrEmpty \<Rightarrow> stateBeginStringOrEmpty_fn s c
      | stateBeginString \<Rightarrow> stateBeginString_fn s c
      | stateEndValue \<Rightarrow> stateEndValue_fn s c
      | stateEndTop \<Rightarrow> stateEndTop_fn s c
      | stateInString \<Rightarrow> stateInString_fn s c
      | stateInStringEsc \<Rightarrow> stateInStringEsc_fn s c
      | stateInStringEscU \<Rightarrow> hex_then stateInStringEscU1 s c
      | stateInStringEscU1 \<Rightarrow> hex_then stateInStringEscU12 s c
      | stateInStringEscU12 \<Rightarrow> hex_then stateInStringEscU123 s c
      | stateInStringEscU123 \<Rightarrow> hex_then stateInString s c
      | stateNeg \<Rightarrow> stateNeg_fn s c
      | state1 \<Rightarrow> state1_fn s c
      | state0 \<Rightarrow> state0_fn s c
      | stateDot \<Rightarrow> stateDot_fn s c
      | stateDot0 \<Rightarrow> stateDot0_fn s c
      | stateE \<Rightarrow> stateE_fn s c
      | stateESign \<Rightarrow> stateESign_fn s c
      | stateE0 \<Rightarrow> stateE0_fn s c
      | stateT \<Rightarrow> letter_then CHR ''r'' stateTr ''in literal true expecting r'' s c
      | stateTr \<Rightarrow> letter_then CHR ''u'' stateTru ''in literal true expecting u'' s c
      | stateTru \<Rightarrow> letter_then CHR ''e'' stateEndValue ''in literal true expecting e'' s c
      | stateF \<Rightarrow> letter_then CHR ''a'' stateFa ''in literal false expecting a'' s c
      | stateFa \<Rightarrow> letter_then CHR ''l'' stateFal ''in literal false expecting l'' s c
      | stateFal \<Rightarrow> letter_then CHR ''s'' stateFals ''in literal false expecting s'' s c
      | stateFals \<Rightarrow> letter_then CHR ''e'' stateEndValue ''in literal false expecting e'' s c
      | stateN \<Rightarrow> letter_then CHR ''u'' stateNu ''in literal null expecting u'' s c
      | stateNu \<Rightarrow> letter_then CHR ''l'' stateNul ''in literal null expecting l'' s c
      | stateNul \<Rightarrow> letter_then CHR ''l'' stateEndValue ''in literal null expecting l'' s c
      | stateError \<Rightarrow> (s, scanError))"

text \<open>
  \<^verbatim>\<open>Decoder.readValue\<close>: the number of bytes up to the end of the first value.
  \<open>scan_buf\<close> is the loop over the bytes at hand: it stops before the byte on which
  the scanner answers \<^verbatim>\<open>scanEnd\<close>, and right after a closing brace or bracket that
  ends the top-level value (the library feeds the scanner a space of its own there, so
  that it need not wait for a next byte). When the bytes run out, \<open>readValue\<close> feeds
  one space: the value is accepted if that ends it, else the error is
  \<^verbatim>\<open>io.ErrUnexpectedEOF\<close>, or \<^verbatim>\<open>io.EOF\<close> for a body of spaces only.
\<close>

datatype scan_result = Stop nat | Fail decode_error | More scanner

fun scan_buf :: "scanner \<Rightarrow> string \<Rightarrow> nat \<Rightarrow> scan_result" where
  "scan_buf s [] scanp = More s"
| "scan_buf s (c # cs) scanp =
     (case step_fn s c of
        (s1, op) \<Rightarrow>
          if op = scanEnd then Stop scanp
          else if op = scanEndObject \<or> op = scanEndArray then
            (case stateEndValue_fn s1 CHR '' '' of
               (s2, op2) \<Rightarrow> if op2 = scanEnd then Stop (scanp + 1) else scan_buf s2 cs (scanp + 1))
          else if op = scanError then
            Fail (case scan_err s1 of None \<Rightarrow> RuntimePanic | Some e \<Rightarrow> e)
          else scan_buf s1 cs (scanp + 1))"

definition nonSpace :: "string \<Rightarrow> bool" where
  "nonSpace b = (\<exists>c \<in> set b. \<not> isSpace c)"

definition readValue :: "string \<Rightarrow> decode_error + nat" where
  "readValue body =
     (case scan_buf reset body 0 of
        Stop n \<Rightarrow> Inr n
      | Fail e \<Rightarrow> Inl e
      | More s \<Rightarrow>
          if snd (step_fn s CHR '' '') = scanEnd then Inr (length body)
          else if nonSpace body then Inl ErrUnexpectedEOF
          else Inl EOF)"

text \<open>The first value, as a tree; an object keeps its members in order.\<close>

datatype json =
    JNull | JBool bool | JNumber string | JString string
  | JArray "json list" | JObject "(string \<times> json) list"

text \<open>
  The field a key names: the exact tag first, then the tag compared without regard to
  ASCII letter case. (A byte outside ASCII is left as it is: neither tag has a letter
  that folds with one.)
\<close>

datatype field = field_Prompt | field_Model

definition foldName :: "string \<Rightarrow> string" where
  "foldName key = map (\<lambda>c. if c \<in> set ''abcdefghijklmnopqrstuvwxyz''
                              then char_of (of_char c - (32::nat)) else c) key"

definition find_field :: "string \<Rightarrow> field option" where
  "find_field key =
     (if key = ''prompt'' then Some field_Prompt
      else if key = ''model'' then Some field_Model
      else if foldName key = ''PROMPT'' then Some field_Prompt
      else if foldName key = ''MODEL'' then Some field_Model
      else None)"

text \<open>
  Storing a value into a string field: a string is stored, \<^verbatim>\<open>null\<close> leaves the
  field as it is, anything else is a type error. The decoder keeps the first error
  (\<^verbatim>\<open>saveError\<close>) and goes on. A member whose key names no field is skipped.
\<close>

definition saveError :: "decode_error option \<Rightarrow> decode_error option \<Rightarrow> decode_error option" where
  "saveError saved e = (case saved of None \<Rightarrow> e | Some _ \<Rightarrow> saved)"

fun store_string :: "json \<Rightarrow> string \<Rightarrow> decode_error option \<times> string" where
  "store_string (JString s) old = (None, s)"
| "store_string JNull old = (None, old)"
| "store_string (JBool b) old = (Some (UnmarshalTypeError ''bool''), old)"
| "store_string (JNumber n) old = (Some (UnmarshalTypeError ''number''), old)"
| "store_string (JArray xs) old = (Some (UnmarshalTypeError ''array''), old)"
| "store_string (JObject ms) old = (Some (UnmarshalTypeError ''object''), old)"

fun object :: "(string \<times> json) list \<Rightarrow> decode_error option \<times> PromptRequest \<Rightarrow>
    decode_error option \<times> PromptRequest" where
  "object [] st = st"
| "object ((key, x) # ms) (saved, req) =
     (case find_field key of
        None \<Rightarrow> object ms (saved, req)
      | Some field_Prompt \<Rightarrow>
          (case store_string x (Prompt req) of
             (e, s) \<Rightarrow> object ms (saveError saved e, req\<lparr>Prompt := s\<rparr>))
      | Some field_Model \<Rightarrow>
          (case store_string x (Model req) of
             (e, s) \<Rightarrow> object ms (saveError saved e, req\<lparr>Model := s\<rparr>)))"

definition unmarshal :: "json \<Rightarrow> decode_error + PromptRequest" where
  "unmarshal j =
     (let req = \<lparr>Prompt = [], Model = []\<rparr>;
          (saved, req1) =
            (case j of
               JObject ms \<Rightarrow> object ms (None, req)
             | JNull \<Rightarrow> (None, req)
             | JBool b \<Rightarrow> (Some (UnmarshalTypeError ''bool''), req)
             | JNumber n \<Rightarrow> (Some (UnmarshalTypeError ''number''), req)
             | JString s \<Rightarrow> (Some (UnmarshalTypeError ''string''), req)
             | JArray xs \<Rightarrow> (Some (UnmarshalTypeError ''array''), req))
      in case saved of None \<Rightarrow> Inr req1 | Some e \<Rightarrow> Inl e)"

text \<open>
  Modelled from the spec: \<^verbatim>\<open>Decode\<close> as the handler calls it, on a fresh decoder and
  the zero-valued \<^verbatim>\<open>req\<close> of line 56. Only the bytes of the first value reach the
  second stage.
\<close>

definition json_Decode :: "(string \<Rightarrow> json) \<Rightarrow> string \<Rightarrow> decode_error + PromptRequest" where
  "json_Decode parse body =
     (case readValue body of
        Inl e \<Rightarrow> Inl e
      | Inr n \<Rightarrow> unmarshal (parse (take n body)))"

text \<open>
  Modelled from the spec: what the library itself calls valid JSON, \<^verbatim>\<open>json.Valid\<close>
  (the handler does not call it). Every byte of the text is fed to the scanner, none may
  be refused, and the text must end where one top-level value ends: \<^verbatim>\<open>scanner.eof\<close>
  refuses a recorded error, which is what a byte other than a space after the top-level
  value leaves behind, and a value that is not complete.
\<close>

fun scan_all :: "scanner \<Rightarrow> string \<Rightarrow> scanner option" where
  "scan_all s [] = Some s"
| "scan_all s (c # cs) =
     (case step_fn s c of
        (s1, op) \<Rightarrow> if op = scanError then None else scan_all s1 cs)"

definition eof :: "scanner \<Rightarrow> opcode" where
  "eof s =
     (if scan_err s \<noteq> None then scanError
      else if endTop s then scanEnd
      else if endTop (fst (step_fn s CHR '' '')) then scanEnd
      else scanError)"

definition json_Valid :: "string \<Rightarrow> bool" where
  "json_Valid data =
     (case scan_all reset data of
        None \<Rightarrow> False
      | Some s \<Rightarrow> eof s \<noteq> scanError)"

text \<open>One turn of the loop in \<open>scan_buf\<close>: the scanner to go on with, if the loop goes on.\<close>

definition loop_next :: "scanner \<Rightarrow> char \<Rightarrow> scanner option" where
  "loop_next s c =
     (case step_fn s c of
        (s1, op) \<Rightarrow>
          if op = scanEnd then None
          else if op = scanEndObject \<or> op = scanEndArray then
            (case stateEndValue_fn s1 CHR '' '' of
               (s2, op2) \<Rightarrow> if op2 = scanEnd then None else Some s2)
          else if op = scanError then None
          else Some s1)"

subsection \<open>Stand-ins for the parameters, for concrete runs\<close>

definition decode_fails :: "string \<Rightarrow> go_error + PromptRequest" where
  "decode_fails b = Inl ''unexpected EOF''"

definition decode_hello :: "string \<Rightarrow> go_error + PromptRequest" where
  "decode_hello b = Inr \<lparr>Prompt = ''Hello, Bedrock!'', Model = ''example-model-id''\<rparr>"

definition decode_no_prompt :: "string \<Rightarrow> go_error + PromptRequest" where
  "decode_no_prompt b = Inr \<lparr>Prompt = [], Model = ''example-model-id''\<rparr>"

definition invoke_hi :: "InvokeModelInput \<Rightarrow> go_error + InvokeModelOutput" where
  "invoke_hi p = Inr \<lparr>OutputText = Some ''Hi there''\<rparr>"

definition invoke_nil :: "InvokeModelInput \<Rightarrow> go_error + InvokeModelOutput" where
  "invoke_nil p = Inr \<lparr>OutputText = None\<rparr>"

definition invoke_fails :: "InvokeModelInput \<Rightarrow> go_error + InvokeModelOutput" where
  "invoke_fails p = Inl ''AccessDeniedException: not authorized''"

definition invoke_throttled :: "InvokeModelInput \<Rightarrow> go_error + InvokeModelOutput" where
  "invoke_throttled p = Inl ''ThrottlingException: rate exceeded''"

definition quote_plain :: "string \<Rightarrow> string" where
  \<open>quote_plain s = ''"'' @ s @ ''"''\<close>

definition get_request :: Request where
  \<open>get_request = \<lparr>Method = ''GET'', Body = ''{"prompt":"Hello, Bedrock!","model":"example-model-id"}''\<rparr>\<close>

definition post_hello :: Request where
  \<open>post_hello = \<lparr>Method = ''POST'', Body = ''{"prompt":"Hello, Bedrock!","model":"example-model-id"}''\<rparr>\<close>

definition post_no_prompt :: Request where
  \<open>post_no_prompt = \<lparr>Method = ''POST'', Body = ''{"prompt":"","model":"example-model-id"}''\<rparr>\<close>

definition post_garbage :: Request where
  \<open>post_garbage = \<lparr>Method = ''POST'', Body = ''{"prompt":''\<rparr>\<close>

definition env_example :: "string \<rightharpoonup> string" where
  "env_example = [''AWS_REGION'' \<mapsto> ''us-east-1'', ''AWS_ACCESS_KEY_ID'' \<mapsto> ''AKIAEXAMPLE'',
                  ''AWS_SECRET_ACCESS_KEY'' \<mapsto> ''secret'']"

definition session_ok :: "aws_Config \<Rightarrow> go_error + unit" where
  "session_ok c = Inr ()"

definition session_fails :: "aws_Config \<Rightarrow> go_error + unit" where
  "session_fails c = Inl ''could not load shared config''"

definition listen_fails :: "string \<Rightarrow> go_error option" where
  "listen_fails addr = Some ''listen tcp :3000: bind: address already in use''"

definition env_port_8080 :: "string \<rightharpoonup> string" where
  "env_port_8080 = env_example(''PORT'' \<mapsto> ''8080'')"

definition listen_denied :: "string \<Rightarrow> go_error option" where
  "listen_denied addr = Some ''listen tcp :8080: bind: permission denied''"

definition listen_forever :: "string \<Rightarrow> go_error option" where
  "listen_forever addr = None"

definition body_extra :: string where
  \<open>body_extra = ''{"prompt":"Hello, Bedrock!","debug":true,"model":"example-model-id"}''\<close>

definition parse_extra :: "string \<Rightarrow> json" where
  "parse_extra b = JObject [(''prompt'', JString ''Hello, Bedrock!''), (''debug'', JBool True),
                            (''model'', JString ''example-model-id'')]"

section \<open>Properties of the handler\<close>

lemma http_Error_fresh: "http_Error fresh_writer msg code = error_response msg code"
  by (simp add: http_Error_def error_response_def fresh_writer_def Header_Set_def
      WriteHeader_def Write_def Let_def)

text \<open>
  C4. A request whose method is not POST is answered 405 with the fixed text
  "Invalid request method"; nothing is logged, the client is not called, and the whole
  outcome is the same for any other body, decoder, client and quoting.
\<close>

theorem C4_method_not_allowed:
  assumes "Method r \<noteq> ''POST''"
  shows "serve Decode InvokeModel quote r =
           \<lparr>writer = \<lparr>Header = [''Content-Type'' \<mapsto> ''text/plain; charset=utf-8'',
                                 ''X-Content-Type-Options'' \<mapsto> ''nosniff''],
                      status = Some 405, written = ''Invalid request method\<newline>''\<rparr>,
            logged = [], invoked = []\<rparr>
         \<and> serve Decode' InvokeModel' quote' (r\<lparr>Body := b\<rparr>) = serve Decode InvokeModel quote r"
  using assms by (simp add: serve_def handler_def fresh_def http_Error_fresh error_response_def)

theorem C4_method_not_allowed_witness:
  "Method get_request \<noteq> ''POST''
   \<and> status (writer (serve decode_hello invoke_hi quote_plain get_request)) = Some 405
   \<and> written (writer (serve decode_hello invoke_hi quote_plain get_request)) = ''Invalid request method\<newline>''
   \<and> serve decode_fails invoke_fails id (get_request\<lparr>Body := ''other''\<rparr>)
       = serve decode_hello invoke_hi quote_plain get_request"
proof -
  have m: "Method get_request \<noteq> ''POST''"
    by (simp add: get_request_def)
  show ?thesis
    using m
      C4_method_not_allowed [where r = get_request and Decode = decode_hello
        and InvokeModel = invoke_hi and quote = quote_plain and Decode' = decode_fails
        and InvokeModel' = invoke_fails and quote' = id and b = "''other''"]
    by simp
qed

text \<open>
  The response the success path leaves on a fresh writer: status 200 (written by the
  first \<^verbatim>\<open>Write\<close>), the JSON content type, the encoded object and its newline.
\<close>

lemma Encode_fresh:
  \<open>Encode quote (Header_Set fresh_writer ''Content-Type'' ''application/json'') \<lparr>Response = s\<rparr> =
     \<lparr>Header = [''Content-Type'' \<mapsto> ''application/json''], status = Some 200,
      written = ''{"response":'' @ quote s @ ''}\<newline>''\<rparr>\<close>
  by (simp add: Encode_def Marshal_def fresh_writer_def Header_Set_def WriteHeader_def
      Write_def Let_def)

lemma serve_valid:
  assumes "Method r = ''POST''" and "Decode (Body r) = Inr req"
    and "Prompt req \<noteq> []" and "Model req \<noteq> []"
  shows "serve Decode InvokeModel quote r =
     (case InvokeModel \<lparr>InputText = Some (Prompt req), ModelId = Some (Model req)\<rparr> of
        Inl err \<Rightarrow>
          \<lparr>writer = error_response ''Failed to invoke Bedrock model'' 500,
           logged = [''Error invoking Bedrock model: '' @ err],
           invoked = [\<lparr>InputText = Some (Prompt req), ModelId = Some (Model req)\<rparr>]\<rparr>
      | Inr resp \<Rightarrow>
          \<lparr>writer = Encode quote (Header_Set fresh_writer ''Content-Type'' ''application/json'')
                      \<lparr>Response = aws_StringValue (OutputText resp)\<rparr>,
           logged = [],
           invoked = [\<lparr>InputText = Some (Prompt req), ModelId = Some (Model req)\<rparr>]\<rparr>)"
  using assms
  by (simp add: serve_def handler_def fresh_def http_Error_fresh aws_String_def Let_def
      split: sum.split)

text \<open>
  C1. A POST whose body decodes to a request with non-empty prompt and model, on which
  the client succeeds, is answered 200 with content type application/json and the body
  \<^verbatim>\<open>{"response":<quoted output>}\<close> followed by the encoder's newline; the client was
  called once, with that prompt and model, and nothing was logged.
\<close>

theorem C1_success_response:
  assumes "Method r = ''POST''" and "Decode (Body r) = Inr req"
    and "Prompt req \<noteq> []" and "Model req \<noteq> []"
    and "InvokeModel \<lparr>InputText = Some (Prompt req), ModelId = Some (Model req)\<rparr> = Inr out"
  shows \<open>serve Decode InvokeModel quote r =
     \<lparr>writer = \<lparr>Header = [''Content-Type'' \<mapsto> ''application/json''], status = Some 200,
                written = ''{"response":'' @ quote (aws_StringValue (OutputText out)) @ ''}\<newline>''\<rparr>,
      logged = [],
      invoked = [\<lparr>InputText = Some (Prompt req), ModelId = Some (Model req)\<rparr>]\<rparr>\<close>
  using assms by (simp add: serve_valid Encode_fresh)

theorem C1_success_response_witness:
  \<open>Method post_hello = ''POST''
   \<and> decode_hello (Body post_hello) = Inr \<lparr>Prompt = ''Hello, Bedrock!'', Model = ''example-model-id''\<rparr>
   \<and> invoke_hi \<lparr>InputText = Some ''Hello, Bedrock!'', ModelId = Some ''example-model-id''\<rparr>
       = Inr \<lparr>OutputText = Some ''Hi there''\<rparr>
   \<and> serve decode_hello invoke_hi quote_plain post_hello =
       \<lparr>writer = \<lparr>Header = [''Content-Type'' \<mapsto> ''application/json''], status = Some 200,
                  written = ''{"response":"Hi there"}\<newline>''\<rparr>,
        logged = [],
        invoked = [\<lparr>InputText = Some ''Hello, Bedrock!'', ModelId = Some ''example-model-id''\<rparr>]\<rparr>\<close>
proof -
  have m: "Method post_hello = ''POST''"
    by (simp add: post_hello_def)
  have d: "decode_hello (Body post_hello) = Inr \<lparr>Prompt = ''Hello, Bedrock!'', Model = ''example-model-id''\<rparr>"
    by (simp add: decode_hello_def)
  have i: "invoke_hi \<lparr>InputText = Some ''Hello, Bedrock!'', ModelId = Some ''example-model-id''\<rparr>
           = Inr \<lparr>OutputText = Some ''Hi there''\<rparr>"
    by (simp add: invoke_hi_def)
  show ?thesis
    using m d i
      C1_success_response [where r = post_hello and Decode = decode_hello
        and req = "\<lparr>Prompt = ''Hello, Bedrock!'', Model = ''example-model-id''\<rparr>"
        and InvokeModel = invoke_hi and out = "\<lparr>OutputText = Some ''Hi there''\<rparr>"
        and quote = quote_plain]
    by (simp add: aws_StringValue_def quote_plain_def)
qed

text \<open>
  C2. A POST whose body decodes but whose prompt or model is the empty string is
  answered 400 with the text "Prompt and model are required" (and the newline of
  \<^verbatim>\<open>http.Error\<close>); the client is not called and nothing is logged.
\<close>

theorem C2_empty_field_rejected:
  assumes "Method r = ''POST''" and "Decode (Body r) = Inr req"
    and "Prompt req = [] \<or> Model req = []"
  shows "serve Decode InvokeModel quote r =
           \<lparr>writer = \<lparr>Header = [''Content-Type'' \<mapsto> ''text/plain; charset=utf-8'',
                                 ''X-Content-Type-Options'' \<mapsto> ''nosniff''],
                      status = Some 400, written = ''Prompt and model are required\<newline>''\<rparr>,
            logged = [], invoked = []\<rparr>"
  using assms
  by (auto simp add: serve_def handler_def fresh_def http_Error_fresh error_response_def)

theorem C2_empty_field_rejected_witness:
  "Method post_no_prompt = ''POST''
   \<and> decode_no_prompt (Body post_no_prompt) = Inr \<lparr>Prompt = [], Model = ''example-model-id''\<rparr>
   \<and> status (writer (serve decode_no_prompt invoke_hi quote_plain post_no_prompt)) = Some 400
   \<and> written (writer (serve decode_no_prompt invoke_hi quote_plain post_no_prompt))
       = ''Prompt and model are required\<newline>''
   \<and> invoked (serve decode_no_prompt invoke_hi quote_plain post_no_prompt) = []"
proof -
  have m: "Method post_no_prompt = ''POST''"
    by (simp add: post_no_prompt_def)
  have d: "decode_no_prompt (Body post_no_prompt) = Inr \<lparr>Prompt = [], Model = ''example-model-id''\<rparr>"
    by (simp add: decode_no_prompt_def)
  show ?thesis
    using m d
      C2_empty_field_rejected [where r = post_no_prompt and Decode = decode_no_prompt
        and req = "\<lparr>Prompt = [], Model = ''example-model-id''\<rparr>"
        and InvokeModel = invoke_hi and quote = quote_plain]
    by simp
qed

text \<open>
  C3, as the code has it. A POST on which decoding the body returns an error is
  answered 400 ("Invalid request payload") at once: the client is not called and nothing
  is logged. The condition is the decoder's verdict, not the validity of the whole body.
\<close>

theorem C3_malformed_body_rejected:
  assumes "Method r = ''POST''" and "Decode (Body r) = Inl err"
  shows "serve Decode InvokeModel quote r =
           \<lparr>writer = \<lparr>Header = [''Content-Type'' \<mapsto> ''text/plain; charset=utf-8'',
                                 ''X-Content-Type-Options'' \<mapsto> ''nosniff''],
                      status = Some 400, written = ''Invalid request payload\<newline>''\<rparr>,
            logged = [], invoked = []\<rparr>"
  using assms
  by (simp add: serve_def handler_def fresh_def http_Error_fresh error_response_def)

theorem C3_malformed_body_rejected_witness:
  "Method post_garbage = ''POST''
   \<and> decode_fails (Body post_garbage) = Inl ''unexpected EOF''
   \<and> status (writer (serve decode_fails invoke_hi quote_plain post_garbage)) = Some 400
   \<and> invoked (serve decode_fails invoke_hi quote_plain post_garbage) = []"
proof -
  have m: "Method post_garbage = ''POST''"
    by (simp add: post_garbage_def)
  have d: "decode_fails (Body post_garbage) = Inl ''unexpected EOF''"
    by (simp add: decode_fails_def)
  show ?thesis
    using m d
      C3_malformed_body_rejected [where r = post_garbage and Decode = decode_fails
        and err = "''unexpected EOF''" and InvokeModel = invoke_hi and quote = quote_plain]
    by simp
qed

text \<open>
  C5. A POST that reaches the client and on which the client fails is answered 500 with
  the fixed text "Failed to invoke Bedrock model"; the error's text goes to the log line
  only. The response is one constant: it is the same whatever error a client returns.
\<close>

theorem C5_client_failure_generic:
  assumes "Method r = ''POST''" and "Decode (Body r) = Inr req"
    and "Prompt req \<noteq> []" and "Model req \<noteq> []"
    and "InvokeModel \<lparr>InputText = Some (Prompt req), ModelId = Some (Model req)\<rparr> = Inl err"
    and "InvokeModel' \<lparr>InputText = Some (Prompt req), ModelId = Some (Model req)\<rparr> = Inl err'"
  shows "serve Decode InvokeModel quote r =
           \<lparr>writer = \<lparr>Header = [''Content-Type'' \<mapsto> ''text/plain; charset=utf-8'',
                                 ''X-Content-Type-Options'' \<mapsto> ''nosniff''],
                      status = Some 500, written = ''Failed to invoke Bedrock model\<newline>''\<rparr>,
            logged = [''Error invoking Bedrock model: '' @ err],
            invoked = [\<lparr>InputText = Some (Prompt req), ModelId = Some (Model req)\<rparr>]\<rparr>
         \<and> writer (serve Decode InvokeModel' quote r) = writer (serve Decode InvokeModel quote r)"
  using assms by (simp add: serve_valid error_response_def)

theorem C5_client_failure_generic_witness:
  "Method post_hello = ''POST''
   \<and> decode_hello (Body post_hello) = Inr \<lparr>Prompt = ''Hello, Bedrock!'', Model = ''example-model-id''\<rparr>
   \<and> invoke_fails \<lparr>InputText = Some ''Hello, Bedrock!'', ModelId = Some ''example-model-id''\<rparr>
       = Inl ''AccessDeniedException: not authorized''
   \<and> invoke_throttled \<lparr>InputText = Some ''Hello, Bedrock!'', ModelId = Some ''example-model-id''\<rparr>
       = Inl ''ThrottlingException: rate exceeded''
   \<and> status (writer (serve decode_hello invoke_fails quote_plain post_hello)) = Some 500
   \<and> written (writer (serve decode_hello invoke_fails quote_plain post_hello))
       = ''Failed to invoke Bedrock model\<newline>''
   \<and> logged (serve decode_hello invoke_fails quote_plain post_hello)
       = [''Error invoking Bedrock model: AccessDeniedException: not authorized'']
   \<and> writer (serve decode_hello invoke_throttled quote_plain post_hello)
       = writer (serve decode_hello invoke_fails quote_plain post_hello)"
proof -
  have m: "Method post_hello = ''POST''"
    by (simp add: post_hello_def)
  have d: "decode_hello (Body post_hello) = Inr \<lparr>Prompt = ''Hello, Bedrock!'', Model = ''example-model-id''\<rparr>"
    by (simp add: decode_hello_def)
  have i: "invoke_fails \<lparr>InputText = Some ''Hello, Bedrock!'', ModelId = Some ''example-model-id''\<rparr>
           = Inl ''AccessDeniedException: not authorized''"
    by (simp add: invoke_fails_def)
  have i': "invoke_throttled \<lparr>InputText = Some ''Hello, Bedrock!'', ModelId = Some ''example-model-id''\<rparr>
           = Inl ''ThrottlingException: rate exceeded''"
    by (simp add: invoke_throttled_def)
  show ?thesis
    using m d i i'
      C5_client_failure_generic [where r = post_hello and Decode = decode_hello
        and req = "\<lparr>Prompt = ''Hello, Bedrock!'', Model = ''example-model-id''\<rparr>"
        and InvokeModel = invoke_fails and err = "''AccessDeniedException: not authorized''"
        and InvokeModel' = invoke_throttled and err' = "''ThrottlingException: rate exceeded''"
        and quote = quote_plain]
    by simp
qed

text \<open>
  C6. The handler calls the client at most once, and only on a POST whose body decoded
  to a request with non-empty prompt and model; the call carries exactly that prompt and
  model. In every other case the outcome does not depend on the client at all. The call
  stands after the three checks in the handler's text, so validation is over before it.
\<close>

theorem C6_invoked_only_when_valid:
  "(invoked (serve Decode InvokeModel quote r) \<noteq> [] \<longrightarrow>
      Method r = ''POST'' \<and>
      (\<exists>req. Decode (Body r) = Inr req \<and> Prompt req \<noteq> [] \<and> Model req \<noteq> [] \<and>
         invoked (serve Decode InvokeModel quote r)
           = [\<lparr>InputText = Some (Prompt req), ModelId = Some (Model req)\<rparr>]))
   \<and> (invoked (serve Decode InvokeModel quote r) = [] \<longrightarrow>
      serve Decode InvokeModel' quote' r = serve Decode InvokeModel quote r)"
  by (auto simp add: serve_def handler_def fresh_def aws_String_def Let_def
      split: sum.splits if_splits)

theorem C6_invoked_only_when_valid_witness:
  "invoked (serve decode_hello invoke_hi quote_plain post_hello)
     = [\<lparr>InputText = Some ''Hello, Bedrock!'', ModelId = Some ''example-model-id''\<rparr>]
   \<and> Method post_hello = ''POST''
   \<and> (\<exists>req. decode_hello (Body post_hello) = Inr req \<and> Prompt req \<noteq> [] \<and> Model req \<noteq> [] \<and>
         invoked (serve decode_hello invoke_hi quote_plain post_hello)
           = [\<lparr>InputText = Some (Prompt req), ModelId = Some (Model req)\<rparr>])
   \<and> invoked (serve decode_no_prompt invoke_hi quote_plain post_no_prompt) = []
   \<and> serve decode_no_prompt invoke_fails id post_no_prompt
       = serve decode_no_prompt invoke_hi quote_plain post_no_prompt"
proof -
  have a: "invoked (serve decode_hello invoke_hi quote_plain post_hello)
     = [\<lparr>InputText = Some ''Hello, Bedrock!'', ModelId = Some ''example-model-id''\<rparr>]"
    by (simp add: serve_def handler_def fresh_def post_hello_def decode_hello_def
        invoke_hi_def aws_String_def Let_def)
  have b: "invoked (serve decode_no_prompt invoke_hi quote_plain post_no_prompt) = []"
    by (simp add: serve_def handler_def fresh_def post_no_prompt_def decode_no_prompt_def
        http_Error_fresh)
  show ?thesis
    using a b
      C6_invoked_only_when_valid [where r = post_hello and Decode = decode_hello
        and InvokeModel = invoke_hi and quote = quote_plain]
      C6_invoked_only_when_valid [where r = post_no_prompt and Decode = decode_no_prompt
        and InvokeModel = invoke_hi and quote = quote_plain and InvokeModel' = invoke_fails
        and quote' = id]
    by simp
qed

text \<open>
  C9. When the client succeeds with a nil output text, the handler answers 200 with the
  JSON content type and the body \<^verbatim>\<open>{"response":""}\<close> (and the encoder's newline),
  given that the library quotes the empty string as two double quotes.
\<close>

theorem C9_nil_output_is_empty_string:
  assumes "Method r = ''POST''" and "Decode (Body r) = Inr req"
    and "Prompt req \<noteq> []" and "Model req \<noteq> []"
    and "InvokeModel \<lparr>InputText = Some (Prompt req), ModelId = Some (Model req)\<rparr>
           = Inr \<lparr>OutputText = None\<rparr>"
    and \<open>quote [] = ''""''\<close>
  shows \<open>writer (serve Decode InvokeModel quote r) =
           \<lparr>Header = [''Content-Type'' \<mapsto> ''application/json''], status = Some 200,
            written = ''{"response":""}\<newline>''\<rparr>
         \<and> logged (serve Decode InvokeModel quote r) = []\<close>
  using assms by (simp add: serve_valid Encode_fresh aws_StringValue_def)

theorem C9_nil_output_is_empty_string_witness:
  \<open>Method post_hello = ''POST''
   \<and> decode_hello (Body post_hello) = Inr \<lparr>Prompt = ''Hello, Bedrock!'', Model = ''example-model-id''\<rparr>
   \<and> invoke_nil \<lparr>InputText = Some ''Hello, Bedrock!'', ModelId = Some ''example-model-id''\<rparr>
       = Inr \<lparr>OutputText = None\<rparr>
   \<and> quote_plain [] = ''""''
   \<and> writer (serve decode_hello invoke_nil quote_plain post_hello) =
       \<lparr>Header = [''Content-Type'' \<mapsto> ''application/json''], status = Some 200,
        written = ''{"response":""}\<newline>''\<rparr>\<close>
proof -
  have m: "Method post_hello = ''POST''"
    by (simp add: post_hello_def)
  have d: "decode_hello (Body post_hello) = Inr \<lparr>Prompt = ''Hello, Bedrock!'', Model = ''example-model-id''\<rparr>"
    by (simp add: decode_hello_def)
  have i: "invoke_nil \<lparr>InputText = Some ''Hello, Bedrock!'', ModelId = Some ''example-model-id''\<rparr>
           = Inr \<lparr>OutputText = None\<rparr>"
    by (simp add: invoke_nil_def)
  have q: \<open>quote_plain [] = ''""''\<close>
    by (simp add: quote_plain_def)
  show ?thesis
    using m d i q
      C9_nil_output_is_empty_string [where r = post_hello and Decode = decode_hello
        and req = "\<lparr>Prompt = ''Hello, Bedrock!'', Model = ''example-model-id''\<rparr>"
        and InvokeModel = invoke_nil and quote = quote_plain]
    by simp
qed

section \<open>Properties of start-up\<close>

text \<open>
  C7. The port is the value of PORT, and is "3000" when PORT is not set or set to the
  empty string; the value kept differs from what the environment gave exactly in those
  two cases. Region, access key and secret key are the values of their variables (the
  empty string when not set), unchanged.
\<close>

theorem C7_port_default_only:
  "port (load_env env) =
     (case env ''PORT'' of None \<Rightarrow> ''3000'' | Some p \<Rightarrow> if p = [] then ''3000'' else p)
   \<and> (port (load_env env) \<noteq> Getenv env ''PORT'') = (env ''PORT'' = None \<or> env ''PORT'' = Some [])
   \<and> awsRegion (load_env env) = (case env ''AWS_REGION'' of None \<Rightarrow> [] | Some v \<Rightarrow> v)
   \<and> awsAccessKey (load_env env) = (case env ''AWS_ACCESS_KEY_ID'' of None \<Rightarrow> [] | Some v \<Rightarrow> v)
   \<and> awsSecretKey (load_env env) = (case env ''AWS_SECRET_ACCESS_KEY'' of None \<Rightarrow> [] | Some v \<Rightarrow> v)"
  by (auto simp add: load_env_def Getenv_def Let_def split: option.splits)

text \<open>
  C8, as the code has it. The process exits in two cases and in no other, both with
  status 1 and the error logged last:
  \<^item> the session cannot be built: the failure is logged and the server is never started;
  \<^item> the session is built and \<^verbatim>\<open>http.ListenAndServe\<close> returns (line 87 wraps it in
    \<^verbatim>\<open>log.Fatal\<close>): the error it returned is logged after the start-up line.
  While \<^verbatim>\<open>http.ListenAndServe\<close> does not return, the process has not exited.
\<close>

theorem C8_fatal_paths:
  "(\<forall>err. NewSession (session_config (load_env env)) = Inl err \<longrightarrow>
      main dotenv_failed env NewSession ListenAndServe =
        \<lparr>log_lines = (if dotenv_failed then [''No .env file found''] else [])
                       @ [''Failed to create AWS session: '' @ err],
         exit_status = Some 1, listen_addr = None\<rparr>)
   \<and> (\<forall>sess err. NewSession (session_config (load_env env)) = Inr sess \<and>
          ListenAndServe ('':'' @ port (load_env env)) = Some err \<longrightarrow>
      main dotenv_failed env NewSession ListenAndServe =
        \<lparr>log_lines = (if dotenv_failed then [''No .env file found''] else [])
                       @ [''Server is running on port '' @ port (load_env env), err],
         exit_status = Some 1, listen_addr = Some ('':'' @ port (load_env env))\<rparr>)
   \<and> (\<forall>sess. NewSession (session_config (load_env env)) = Inr sess \<and>
          ListenAndServe ('':'' @ port (load_env env)) = None \<longrightarrow>
      main dotenv_failed env NewSession ListenAndServe =
        \<lparr>log_lines = (if dotenv_failed then [''No .env file found''] else [])
                       @ [''Server is running on port '' @ port (load_env env)],
         exit_status = None, listen_addr = Some ('':'' @ port (load_env env))\<rparr>)
   \<and> (exit_status (main dotenv_failed env NewSession ListenAndServe) \<noteq> None) =
       ((\<exists>err. NewSession (session_config (load_env env)) = Inl err) \<or>
        (\<exists>s err. NewSession (session_config (load_env env)) = Inr s \<and>
           ListenAndServe ('':'' @ port (load_env env)) = Some err))
   \<and> (exit_status (main dotenv_failed env NewSession ListenAndServe) = None
        \<or> exit_status (main dotenv_failed env NewSession ListenAndServe) = Some 1)"
proof -
  have 1: "\<forall>err. NewSession (session_config (load_env env)) = Inl err \<longrightarrow>
      main dotenv_failed env NewSession ListenAndServe =
        \<lparr>log_lines = (if dotenv_failed then [''No .env file found''] else [])
                       @ [''Failed to create AWS session: '' @ err],
         exit_status = Some 1, listen_addr = None\<rparr>"
    by (simp add: main_def Let_def)
  have 2: "\<forall>sess err. NewSession (session_config (load_env env)) = Inr sess \<and>
          ListenAndServe ('':'' @ port (load_env env)) = Some err \<longrightarrow>
      main dotenv_failed env NewSession ListenAndServe =
        \<lparr>log_lines = (if dotenv_failed then [''No .env file found''] else [])
                       @ [''Server is running on port '' @ port (load_env env), err],
         exit_status = Some 1, listen_addr = Some ('':'' @ port (load_env env))\<rparr>"
    by (simp add: main_def Let_def)
  have 3: "\<forall>sess. NewSession (session_config (load_env env)) = Inr sess \<and>
          ListenAndServe ('':'' @ port (load_env env)) = None \<longrightarrow>
      main dotenv_failed env NewSession ListenAndServe =
        \<lparr>log_lines = (if dotenv_failed then [''No .env file found''] else [])
                       @ [''Server is running on port '' @ port (load_env env)],
         exit_status = None, listen_addr = Some ('':'' @ port (load_env env))\<rparr>"
    by (simp add: main_def Let_def)
  have 4: "(exit_status (main dotenv_failed env NewSession ListenAndServe) \<noteq> None) =
       ((\<exists>err. NewSession (session_config (load_env env)) = Inl err) \<or>
        (\<exists>s err. NewSession (session_config (load_env env)) = Inr s \<and>
           ListenAndServe ('':'' @ port (load_env env)) = Some err))"
    by (auto simp add: main_def Let_def split: sum.splits option.splits)
  have 5: "exit_status (main dotenv_failed env NewSession ListenAndServe) = None
        \<or> exit_status (main dotenv_failed env NewSession ListenAndServe) = Some 1"
    by (auto simp add: main_def Let_def split: sum.splits option.splits)
  from 1 2 3 4 5 show ?thesis by blast
qed

theorem C8_fatal_paths_witness:
  "session_fails (session_config (load_env env_example)) = Inl ''could not load shared config''
   \<and> main True env_example session_fails listen_forever =
        \<lparr>log_lines = [''No .env file found'',
                      ''Failed to create AWS session: could not load shared config''],
         exit_status = Some 1, listen_addr = None\<rparr>
   \<and> session_ok (session_config (load_env env_port_8080)) = Inr ()
   \<and> listen_denied ('':'' @ port (load_env env_port_8080))
       = Some ''listen tcp :8080: bind: permission denied''
   \<and> main True env_port_8080 session_ok listen_denied =
        \<lparr>log_lines = [''No .env file found'', ''Server is running on port 8080'',
                      ''listen tcp :8080: bind: permission denied''],
         exit_status = Some 1, listen_addr = Some '':8080''\<rparr>
   \<and> listen_forever ('':'' @ port (load_env env_example)) = None
   \<and> main False env_example session_ok listen_forever =
        \<lparr>log_lines = [''Server is running on port 3000''],
         exit_status = None, listen_addr = Some '':3000''\<rparr>"
proof -
  have f: "session_fails (session_config (load_env env_example)) = Inl ''could not load shared config''"
    by (simp add: session_fails_def)
  have ok8: "session_ok (session_config (load_env env_port_8080)) = Inr ()"
    by (simp add: session_ok_def)
  have ok3: "session_ok (session_config (load_env env_example)) = Inr ()"
    by (simp add: session_ok_def)
  have den: "listen_denied ('':'' @ port (load_env env_port_8080))
       = Some ''listen tcp :8080: bind: permission denied''"
    by (simp add: listen_denied_def)
  have fo: "listen_forever ('':'' @ port (load_env env_example)) = None"
    by (simp add: listen_forever_def)
  have p8: "port (load_env env_port_8080) = ''8080''"
    by (simp add: load_env_def Getenv_def env_port_8080_def env_example_def)
  have p3: "port (load_env env_example) = ''3000''"
    by (simp add: load_env_def Getenv_def env_example_def)
  note a = C8_fatal_paths [where NewSession = session_fails and env = env_example
        and dotenv_failed = True and ListenAndServe = listen_forever]
  note b = C8_fatal_paths [where NewSession = session_ok and env = env_port_8080
        and dotenv_failed = True and ListenAndServe = listen_denied]
  note c = C8_fatal_paths [where NewSession = session_ok and env = env_example
        and dotenv_failed = False and ListenAndServe = listen_forever]
  have 1: "main True env_example session_fails listen_forever =
        \<lparr>log_lines = [''No .env file found'',
                      ''Failed to create AWS session: could not load shared config''],
         exit_status = Some 1, listen_addr = None\<rparr>"
    using a f by simp
  have 2: "main True env_port_8080 session_ok listen_denied =
        \<lparr>log_lines = [''No .env file found'', ''Server is running on port 8080'',
                      ''listen tcp :8080: bind: permission denied''],
         exit_status = Some 1, listen_addr = Some '':8080''\<rparr>"
    using b ok8 den p8 by simp
  have 3: "main False env_example session_ok listen_forever =
        \<lparr>log_lines = [''Server is running on port 3000''],
         exit_status = None, listen_addr = Some '':3000''\<rparr>"
    using c ok3 fo p3 by simp
  show ?thesis
    using f ok8 den fo 1 2 3 by simp
qed

text \<open>
  C8 as the specification words it fails: with the session built and the port taken,
  the process exits all the same.
\<close>

theorem C8_only_fatal_path_counterexample:
  "session_ok (session_config (load_env env_example)) = Inr ()
   \<and> main False env_example session_ok listen_fails =
        \<lparr>log_lines = [''Server is running on port 3000'',
                      ''listen tcp :3000: bind: address already in use''],
         exit_status = Some 1, listen_addr = Some '':3000''\<rparr>"
  by (simp add: main_def session_ok_def listen_fails_def load_env_def Getenv_def
      env_example_def Let_def)

section \<open>Properties of the decoder\<close>

text \<open>Bytes after the point where the scan stopped do not change where it stops.\<close>

lemma scan_buf_append_Stop:
  "scan_buf s v k = Stop n \<Longrightarrow> scan_buf s (v @ t) k = Stop n"
  by (induction v arbitrary: s k) (auto split: prod.splits if_splits)

lemma scan_buf_Cons_More:
  "scan_buf s (c # cs) k = More s' \<Longrightarrow> \<exists>s1. loop_next s c = Some s1 \<and> scan_buf s1 cs (k + 1) = More s'"
  by (auto simp add: loop_next_def split: prod.splits if_splits)

lemma scan_buf_snoc_More:
  "scan_buf s (u @ [c]) k = More s' \<Longrightarrow> \<exists>s0. loop_next s0 c = Some s'"
proof (induction u arbitrary: s k)
  case Nil
  then show ?case using scan_buf_Cons_More [of s c "[]" k s'] by auto
next
  case (Cons a u)
  then obtain s1 where "scan_buf s1 (u @ [c]) (k + 1) = More s'"
    using scan_buf_Cons_More [of s a "u @ [c]" k s'] by auto
  then show ?case using Cons.IH by blast
qed

lemma isSpace_simps [simp]: "isSpace CHR '' ''" "\<not> isSpace CHR ''}''"
  by (simp_all add: isSpace_def)

lemma stateEndValue_brace:
  "stateEndValue_fn s CHR ''}'' = (s1, op) \<Longrightarrow> op \<noteq> scanEnd \<Longrightarrow> op \<noteq> scanError \<Longrightarrow>
     op = scanEndObject \<and> s1 = popParseState s"
  by (auto simp add: stateEndValue_fn_def stateEndTop_fn_def scan_error_def
      split: list.splits parse_state.splits if_splits)

lemma after_pop:
  "stateEndValue_fn (popParseState s) CHR '' '' = (s2, op2) \<Longrightarrow> op2 \<noteq> scanEnd \<Longrightarrow>
     snd (step_fn s2 CHR '' '') \<noteq> scanEnd"
  by (auto simp add: stateEndValue_fn_def stateEndTop_fn_def popParseState_def step_fn_def Let_def
      split: list.splits if_splits)

lemma step_fn_brace:
  assumes "step_fn s CHR ''}'' = (s1, op)" and "op \<noteq> scanEnd" and "op \<noteq> scanError"
  shows "(op = scanEndObject \<and> (\<exists>s2. s1 = popParseState s2)) \<or>
         (op = scanContinue \<and> step s1 = stateInString)"
proof (cases "step s")
  case stateBeginStringOrEmpty
  then show ?thesis
    using assms
    by (auto simp add: step_fn_def stateBeginStringOrEmpty_fn_def scan_panic_def
        split: list.splits dest!: stateEndValue_brace)
next
  case stateEndValue
  then show ?thesis
    using assms by (auto simp add: step_fn_def dest!: stateEndValue_brace)
next
  case stateInString
  then show ?thesis
    using assms by (auto simp add: step_fn_def stateInString_fn_def scan_error_def split: if_splits)
next
  case state1
  then show ?thesis
    using assms
    by (auto simp add: step_fn_def state1_fn_def state0_fn_def isDigit_def
        dest!: stateEndValue_brace)
next
  case state0
  then show ?thesis
    using assms by (auto simp add: step_fn_def state0_fn_def dest!: stateEndValue_brace)
next
  case stateDot0
  then show ?thesis
    using assms
    by (auto simp add: step_fn_def stateDot0_fn_def isDigit_def dest!: stateEndValue_brace)
next
  case stateE0
  then show ?thesis
    using assms
    by (auto simp add: step_fn_def stateE0_fn_def isDigit_def dest!: stateEndValue_brace)
qed (use assms in \<open>auto simp add: step_fn_def stateBeginValue_fn_def stateBeginValueOrEmpty_fn_def
      stateBeginString_fn_def stateEndTop_fn_def stateInStringEsc_fn_def hex_then_def
      stateNeg_fn_def stateDot_fn_def stateE_fn_def stateESign_fn_def letter_then_def
      scan_error_def isDigit_def isDigit19_def isHex_def isSpace_def\<close>)

lemma loop_next_brace:
  assumes "loop_next s0 CHR ''}'' = Some s'"
  shows "snd (step_fn s' CHR '' '') \<noteq> scanEnd"
proof -
  obtain s1 op where st: "step_fn s0 CHR ''}'' = (s1, op)"
    by (cases "step_fn s0 CHR ''}''")
  with assms have nonstop: "op \<noteq> scanEnd" "op \<noteq> scanError"
    by (auto simp add: loop_next_def split: if_splits prod.splits)
  from step_fn_brace [OF st nonstop]
  show ?thesis
  proof
    assume a: "op = scanEndObject \<and> (\<exists>s2. s1 = popParseState s2)"
    then obtain s2 where s1: "s1 = popParseState s2" by blast
    obtain s3 op3 where e: "stateEndValue_fn (popParseState s2) CHR '' '' = (s3, op3)"
      by (cases "stateEndValue_fn (popParseState s2) CHR '' ''")
    with assms st a s1 have "op3 \<noteq> scanEnd" "s' = s3"
      by (auto simp add: loop_next_def split: if_splits)
    with after_pop [OF e] show ?thesis by simp
  next
    assume b: "op = scanContinue \<and> step s1 = stateInString"
    with assms st have "s' = s1"
      by (auto simp add: loop_next_def)
    with b show ?thesis
      by (simp add: step_fn_def stateInString_fn_def)
  qed
qed

lemma readValue_whole_object:
  assumes "readValue v = Inr (length v)" and "v \<noteq> []" and "last v = CHR ''}''"
  shows "scan_buf reset v 0 = Stop (length v)"
proof (cases "scan_buf reset v 0")
  case (Stop n)
  with assms(1) show ?thesis by (simp add: readValue_def)
next
  case (Fail e)
  with assms(1) show ?thesis by (simp add: readValue_def)
next
  case (More s')
  from assms(2,3) have "v = butlast v @ [CHR ''}'']"
    by (metis append_butlast_last_id)
  with More obtain s0 where "loop_next s0 CHR ''}'' = Some s'"
    using scan_buf_snoc_More [of reset "butlast v" "CHR ''}''" 0 s'] by auto
  then have "snd (step_fn s' CHR '' '') \<noteq> scanEnd"
    by (rule loop_next_brace)
  with More assms(1) show ?thesis
    by (simp add: readValue_def split: if_splits)
qed

lemma readValue_trailing:
  assumes "readValue v = Inr (length v)" and "v \<noteq> []" and "last v = CHR ''}''"
  shows "readValue (v @ t) = Inr (length v)"
  using scan_buf_append_Stop [OF readValue_whole_object [OF assms], of t]
  by (simp add: readValue_def)

lemma json_Decode_trailing:
  assumes "readValue v = Inr (length v)" and "v \<noteq> []" and "last v = CHR ''}''"
  shows "json_Decode parse (v @ t) = json_Decode parse v"
  using readValue_trailing [OF assms, of t] assms(1)
  by (simp add: json_Decode_def)

lemma object_unknown_field:
  "find_field k = None \<Longrightarrow> object (ms1 @ (k, x) # ms2) st = object (ms1 @ ms2) st"
proof (induction ms1 arbitrary: st)
  case Nil
  then show ?case by (cases st) simp
next
  case (Cons m ms1)
  then show ?case
    by (cases m; cases st) (simp split: option.splits field.splits prod.splits)
qed

lemma unmarshal_unknown_field:
  "find_field k = None \<Longrightarrow> unmarshal (JObject (ms1 @ (k, x) # ms2)) = unmarshal (JObject (ms1 @ ms2))"
  by (simp add: unmarshal_def object_unknown_field)

text \<open>
  C10. Let \<open>v\<close> be a body the scanner reads to its last byte as one value, that byte
  being a closing brace: one JSON object, spaces before it allowed. Then whatever bytes
  \<open>t\<close> follow, the decoder gives for \<open>v @ t\<close> what it gives for \<open>v\<close>, so the handler
  answers the request with the longer body exactly as it answers the one with \<open>v\<close>:
  field validation, then the client call. And a member whose key names neither field
  changes nothing in what the object decodes to.
\<close>

theorem C10_trailing_bytes_and_unknown_fields:
  assumes "readValue v = Inr (length v)" and "v \<noteq> []" and "last v = CHR ''}''"
    and "find_field k = None"
  shows "json_Decode parse (v @ t) = json_Decode parse v
         \<and> serve (json_Decode parse) InvokeModel quote \<lparr>Method = m, Body = v @ t\<rparr>
             = serve (json_Decode parse) InvokeModel quote \<lparr>Method = m, Body = v\<rparr>
         \<and> unmarshal (JObject (ms1 @ (k, x) # ms2)) = unmarshal (JObject (ms1 @ ms2))"
proof -
  have 1: "json_Decode parse (v @ t) = json_Decode parse v"
    using assms(1-3) by (rule json_Decode_trailing)
  have 2: "serve (json_Decode parse) InvokeModel quote \<lparr>Method = m, Body = v @ t\<rparr>
             = serve (json_Decode parse) InvokeModel quote \<lparr>Method = m, Body = v\<rparr>"
    by (simp add: serve_def handler_def 1)
  have 3: "unmarshal (JObject (ms1 @ (k, x) # ms2)) = unmarshal (JObject (ms1 @ ms2))"
    using assms(4) by (rule unmarshal_unknown_field)
  from 1 2 3 show ?thesis by simp
qed

theorem C10_trailing_bytes_and_unknown_fields_witness:
  \<open>readValue body_extra = Inr (length body_extra)
   \<and> last body_extra = CHR ''}''
   \<and> find_field ''debug'' = None
   \<and> serve (json_Decode parse_extra) invoke_hi quote_plain
        \<lparr>Method = ''POST'', Body = body_extra @ '' }{ not json''\<rparr> =
       \<lparr>writer = \<lparr>Header = [''Content-Type'' \<mapsto> ''application/json''], status = Some 200,
                  written = ''{"response":"Hi there"}\<newline>''\<rparr>,
        logged = [],
        invoked = [\<lparr>InputText = Some ''Hello, Bedrock!'', ModelId = Some ''example-model-id''\<rparr>]\<rparr>
   \<and> unmarshal (JObject [(''prompt'', JString ''Hello, Bedrock!''), (''debug'', JBool True),
                         (''model'', JString ''example-model-id'')])
       = unmarshal (JObject [(''prompt'', JString ''Hello, Bedrock!''),
                             (''model'', JString ''example-model-id'')])\<close>
proof -
  have r: "readValue body_extra = Inr (length body_extra)"
    by code_simp
  have n: "body_extra \<noteq> []"
    by (simp add: body_extra_def)
  have l: "last body_extra = CHR ''}''"
    by (simp add: body_extra_def)
  have f: "find_field ''debug'' = None"
    by code_simp
  note inst = C10_trailing_bytes_and_unknown_fields [OF r n l f,
      where parse = parse_extra and t = "'' }{ not json''" and InvokeModel = invoke_hi
        and quote = quote_plain and m = "''POST''"
        and ?ms1.0 = "[(''prompt'', JString ''Hello, Bedrock!'')]" and x = "JBool True"
        and ?ms2.0 = "[(''model'', JString ''example-model-id'')]"]
  have d: "json_Decode parse_extra body_extra
           = Inr \<lparr>Prompt = ''Hello, Bedrock!'', Model = ''example-model-id''\<rparr>"
  proof -
    have "find_field ''prompt'' = Some field_Prompt" and "find_field ''model'' = Some field_Model"
      by (simp_all add: find_field_def)
    then show ?thesis
      by (simp add: json_Decode_def r parse_extra_def unmarshal_def f saveError_def)
  qed
  have s: \<open>serve (json_Decode parse_extra) invoke_hi quote_plain
             \<lparr>Method = ''POST'', Body = body_extra\<rparr> =
       \<lparr>writer = \<lparr>Header = [''Content-Type'' \<mapsto> ''application/json''], status = Some 200,
                  written = ''{"response":"Hi there"}\<newline>''\<rparr>,
        logged = [],
        invoked = [\<lparr>InputText = Some ''Hello, Bedrock!'', ModelId = Some ''example-model-id''\<rparr>]\<rparr>\<close>
    by (simp add: serve_valid [where req = "\<lparr>Prompt = ''Hello, Bedrock!'', Model = ''example-model-id''\<rparr>"]
        d invoke_hi_def Encode_fresh aws_StringValue_def quote_plain_def)
  show ?thesis
    using r l f s inst by simp
qed

text \<open>
  C3 as the specification words it fails. The body below is not valid JSON: after
  the object come bytes that are no JSON at all. The decoder stops at the end of the
  object, returns no error, and the handler calls the client and answers 200.
\<close>

theorem C3_invalid_json_accepted_counterexample:
  \<open>\<not> json_Valid (body_extra @ '' }{ not json'')
   \<and> serve (json_Decode parse_extra) invoke_hi quote_plain
        \<lparr>Method = ''POST'', Body = body_extra @ '' }{ not json''\<rparr> =
       \<lparr>writer = \<lparr>Header = [''Content-Type'' \<mapsto> ''application/json''], status = Some 200,
                  written = ''{"response":"Hi there"}\<newline>''\<rparr>,
        logged = [],
        invoked = [\<lparr>InputText = Some ''Hello, Bedrock!'', ModelId = Some ''example-model-id''\<rparr>]\<rparr>\<close>
proof -
  have v: "\<not> json_Valid (body_extra @ '' }{ not json'')"
    by code_simp
  have r: "readValue body_extra = Inr (length body_extra)"
    by code_simp
  have n: "body_extra \<noteq> []"
    by (simp add: body_extra_def)
  have l: "last body_extra = CHR ''}''"
    by (simp add: body_extra_def)
  have f: "find_field ''debug'' = None"
    by code_simp
  have p: "find_field ''prompt'' = Some field_Prompt" and m: "find_field ''model'' = Some field_Model"
    by (simp_all add: find_field_def)
  have "json_Decode parse_extra body_extra
          = Inr \<lparr>Prompt = ''Hello, Bedrock!'', Model = ''example-model-id''\<rparr>"
    using p m by (simp add: json_Decode_def r parse_extra_def unmarshal_def f saveError_def)
  then have d: "json_Decode parse_extra (body_extra @ '' }{ not json'')
          = Inr \<lparr>Prompt = ''Hello, Bedrock!'', Model = ''example-model-id''\<rparr>"
    using json_Decode_trailing [OF r n l, of parse_extra "'' }{ not json''"] by simp
  have s: \<open>serve (json_Decode parse_extra) invoke_hi quote_plain
             \<lparr>Method = ''POST'', Body = body_extra @ '' }{ not json''\<rparr> =
       \<lparr>writer = \<lparr>Header = [''Content-Type'' \<mapsto> ''application/json''], status = Some 200,
                  written = ''{"response":"Hi there"}\<newline>''\<rparr>,
        logged = [],
        invoked = [\<lparr>InputText = Some ''Hello, Bedrock!'', ModelId = Some ''example-model-id''\<rparr>]\<rparr>\<close>
    by (simp add: serve_valid [where req = "\<lparr>Prompt = ''Hello, Bedrock!'', Model = ''example-model-id''\<rparr>"]
        d invoke_hi_def Encode_fresh aws_StringValue_def quote_plain_def)
  from v s show ?thesis by simp
qed

end
